theory Spec2Isabelle
  imports Main "HOL-Library.AList"
begin

section \<open>Data model of \<^verbatim>\<open>oidcendpoint/endpoint.py\<close>\<close>

text \<open>
  Python values are modelled by value. A dict with string keys and string values is an
  association list in insertion order; an instance of a message class is the association
  list of the fields it holds. An HTTP header list is a list of (name, value) pairs.
\<close>

type_synonym header = "string \<times> string"
type_synonym headers = "header list"
type_synonym dict = "(string \<times> string) list"
type_synonym message = "(string \<times> string) list"

text \<open>\<^verbatim>\<open>key in d\<close> for a dict or a message instance.\<close>

definition has_key :: "string \<Rightarrow> (string \<times> string) list \<Rightarrow> bool" where
  "has_key k d = (map_of d k \<noteq> None)"

section \<open>The header utility\<close>

text \<open>
  \<^verbatim>\<open>
  def set_content_type(headers, content_type):
      if ('Content-type', content_type) in headers:
          return headers
      _headers = [h for h in headers if h[0] != 'Content-type']
      _headers.append(('Content-type', content_type))
      return _headers
  \<close>
\<close>

definition set_content_type :: "headers \<Rightarrow> string \<Rightarrow> headers" where
  "set_content_type headers content_type =
     (if (''Content-type'', content_type) \<in> set headers then headers
      else [h \<leftarrow> headers. fst h \<noteq> ''Content-type''] @ [(''Content-type'', content_type)])"

text \<open>The entries of a header list that are named \<^verbatim>\<open>Content-type\<close>, in order.\<close>

definition content_type_entries :: "headers \<Rightarrow> headers" where
  "content_type_entries headers = [h \<leftarrow> headers. fst h = ''Content-type'']"

section \<open>Exceptions, requests and keyword arguments\<close>

text \<open>
  The exceptions this module raises, catches or lets through. Each constructor stands for
  the instances of the Python class of that name (subclasses included), and carries what
  \<^verbatim>\<open>"%s" % err\<close> prints. \<open>OtherException\<close> is any exception that is an instance
  of none of the classes named here.
\<close>

datatype exn =
    MissingRequiredAttribute string
  | MissingRequiredValue string
  | ValueError string
  | UnknownOrNoAuthnMethod string
  | UnAuthorizedClient
  | KeyError string
  | OtherException string

text \<open>
  \<^verbatim>\<open>except (MissingRequiredAttribute, ValueError, MissingRequiredValue) as err\<close>:
  the detail \<^verbatim>\<open>"%s" % err\<close> of an exception this clause catches, \<open>None\<close> for an
  exception it lets through.
\<close>

fun caught_by_verification_handler :: "exn \<Rightarrow> string option" where
  "caught_by_verification_handler (MissingRequiredAttribute d) = Some d"
| "caught_by_verification_handler (ValueError d) = Some d"
| "caught_by_verification_handler (MissingRequiredValue d) = Some d"
| "caught_by_verification_handler (UnknownOrNoAuthnMethod d) = None"
| "caught_by_verification_handler UnAuthorizedClient = None"
| "caught_by_verification_handler (KeyError d) = None"
| "caught_by_verification_handler (OtherException d) = None"

text \<open>An opaque key registry.\<close>

datatype key_jar = KeyJar "string list"

text \<open>
  The raw request handed to \<^verbatim>\<open>parse_request\<close>: nothing (\<^verbatim>\<open>None\<close>), a dict, or a
  string in the endpoint's wire format.
\<close>

datatype raw_request = NoRequest | DictRequest dict | StrRequest string

text \<open>\<^verbatim>\<open>if request:\<close> Python's truth value of the raw request.\<close>

fun truthy :: "raw_request \<Rightarrow> bool" where
  "truthy NoRequest = False"
| "truthy (DictRequest d) = (d \<noteq> [])"
| "truthy (StrRequest s) = (s \<noteq> [])"

text \<open>
  \<^verbatim>\<open>**kwargs\<close> of a pipeline call: the three keys \<^verbatim>\<open>do_response\<close> reads, each
  absent or present, and the remaining keys.
\<close>

record keyword_args =
  http_headers :: "headers option"
  fragment_enc :: "bool option"
  return_uri :: "string option"
  more_kwargs :: dict

text \<open>
  The shared execution context: the fields this module reads (\<^verbatim>\<open>keyjar\<close>,
  \<^verbatim>\<open>verify_ssl\<close>) and the event sink it writes. \<open>None\<close> is a context with no event
  sink; \<^verbatim>\<open>events.store(what, value)\<close> appends to the sink.
\<close>

record endpoint_context =
  ctx_keyjar :: key_jar
  verify_ssl :: bool
  events :: "(string \<times> raw_request) list option"

section \<open>Collaborators outside this module\<close>

text \<open>
  A message class of the message library (\<^verbatim>\<open>oidcmsg.message.Message\<close> and its
  subclasses), which is not part of this repository. The module uses three things of a
  class: the constructor from keyword arguments, \<^verbatim>\<open>deserialize\<close> on a fresh instance
  (raw text, format, and for \<^verbatim>\<open>jwt\<close> the key registry, the SSL flag and the call's
  keyword arguments), and \<^verbatim>\<open>verify(keyjar=..., opponent_id=...)\<close>. Deserialising and
  verifying can raise.
\<close>

record message_cls =
  new :: "dict \<Rightarrow> message"
  deserialize :: "string \<Rightarrow> string \<Rightarrow> (key_jar \<times> bool \<times> keyword_args) option \<Rightarrow> exn + message"
  verify :: "message \<Rightarrow> key_jar \<Rightarrow> string \<Rightarrow> exn + unit"

text \<open>
  The names the module imports or calls on message instances, taken as parameters:
  \<^verbatim>\<open>urllib.parse.urlparse\<close> (the six components of a URL), \<^verbatim>\<open>verify_client\<close> of
  \<^verbatim>\<open>oidcendpoint.client_authn\<close>, the constant \<^verbatim>\<open>OAUTH2_NOCACHE_HEADERS\<close> of
  \<^verbatim>\<open>oidcendpoint.util\<close>, and the serialisers \<^verbatim>\<open>to_json\<close>, \<^verbatim>\<open>to_urlencoded\<close> and
  \<^verbatim>\<open>request(location, fragment_enc)\<close> of a message instance.
\<close>

record library =
  urlparse :: "string \<Rightarrow> exn + (string \<times> string \<times> string \<times> string \<times> string \<times> string)"
  verify_client :: "endpoint_context \<Rightarrow> message \<Rightarrow> string option \<Rightarrow> exn + dict"
  OAUTH2_NOCACHE_HEADERS :: headers
  to_json :: "message \<Rightarrow> string"
  to_urlencoded :: "message \<Rightarrow> string"
  msg_request :: "message \<Rightarrow> string \<Rightarrow> bool \<Rightarrow> string"

section \<open>The Endpoint class\<close>

text \<open>
  A hook of one of the three chains: \<^verbatim>\<open>meth(endpoint_context, value, x, **kwargs)\<close>,
  a pure transformation that returns the next value or raises; it is not handed the
  endpoint, and a hook that changes in place the object it is given is outside this
  model. For the post-parse chain
  \<open>x\<close> is the resolved client id, for the two construct chains it is the parsed request
  (\<^verbatim>\<open>None\<close> when the caller gave none).
\<close>

type_synonym 'x hook = "endpoint_context \<Rightarrow> message \<Rightarrow> 'x \<Rightarrow> keyword_args \<Rightarrow> exn + message"

text \<open>
  A value of the keyword arguments \<^verbatim>\<open>__init__\<close> keeps in \<^verbatim>\<open>self.kwargs\<close>: a
  text, or a list object, named by its address in a store of list objects.
\<close>

type_synonym addr = nat

datatype kwarg = Text string | ListAt addr

text \<open>
  The class attributes (fixed per endpoint type) and the five instance fields that
  \<^verbatim>\<open>__init__\<close> sets.
\<close>

record Endpoint =
  request_cls :: message_cls
  response_cls :: message_cls
  error_cls :: message_cls
  endpoint_name :: string
  endpoint_path :: string
  request_format :: string
  request_placement :: string
  response_format :: string
  response_placement :: string
  client_auth_method :: string
  keyjar :: key_jar
  pre_construct :: "message option hook list"
  post_construct :: "message option hook list"
  post_parse_request :: "string hook list"
  kwargs :: "(string \<times> kwarg) list"

text \<open>
  \<^verbatim>\<open>for meth in chain: value = meth(endpoint_context, value, x, **kwargs)\<close>, the loop
  of the three chain runners. An exception of a hook ends the loop.
\<close>

fun run_chain :: "'x hook list \<Rightarrow> endpoint_context \<Rightarrow> message \<Rightarrow> 'x \<Rightarrow> keyword_args \<Rightarrow> exn + message" where
  "run_chain [] endpoint_context val x kw = Inr val"
| "run_chain (meth # chain) endpoint_context val x kw =
     (case meth endpoint_context val x kw of
        Inl e \<Rightarrow> Inl e
      | Inr val' \<Rightarrow> run_chain chain endpoint_context val' x kw)"

text \<open>
  Every method takes the endpoint \<open>self\<close> and returns, beside its result, the endpoint
  as the call leaves it.
\<close>

definition client_authentication ::
  "library \<Rightarrow> Endpoint \<Rightarrow> endpoint_context \<Rightarrow> message \<Rightarrow> string option \<Rightarrow> keyword_args
     \<Rightarrow> (exn + dict) \<times> Endpoint" where
  "client_authentication lib self endpoint_context request auth kw =
     (verify_client lib endpoint_context request auth, self)"

definition do_post_parse_request ::
  "Endpoint \<Rightarrow> endpoint_context \<Rightarrow> message \<Rightarrow> string \<Rightarrow> keyword_args \<Rightarrow> (exn + message) \<times> Endpoint" where
  "do_post_parse_request self endpoint_context request client_id kw =
     (run_chain (post_parse_request self) endpoint_context request client_id kw, self)"

definition do_pre_construct ::
  "Endpoint \<Rightarrow> endpoint_context \<Rightarrow> dict \<Rightarrow> message option \<Rightarrow> keyword_args \<Rightarrow> (exn + dict) \<times> Endpoint" where
  "do_pre_construct self endpoint_context response_args request kw =
     (run_chain (pre_construct self) endpoint_context response_args request kw, self)"

definition do_post_construct ::
  "Endpoint \<Rightarrow> endpoint_context \<Rightarrow> message \<Rightarrow> message option \<Rightarrow> keyword_args \<Rightarrow> (exn + message) \<times> Endpoint" where
  "do_post_construct self endpoint_context response_args request kw =
     (run_chain (post_construct self) endpoint_context response_args request kw, self)"

subsection \<open>parse_request\<close>

text \<open>
  Lines 79 to 95 of \<^verbatim>\<open>parse_request\<close>: the raw request decoded into an instance of
  the request class.
  \<^verbatim>\<open>
  if request:
      if isinstance(request, dict):
          req = self.request_cls(**request)
      else:
          if self.request_format == 'jwt':
              req = self.request_cls().deserialize(
                  request, "jwt", keyjar=endpoint_context.keyjar,
                  verify=endpoint_context.verify_ssl, **kwargs)
          elif self.request_format == 'url':
              parts = urlparse(request)
              scheme, netloc, path, params, query, fragment = parts[:6]
              req = self.request_cls().deserialize(query, 'urlencoded')
          else:
              req = self.request_cls().deserialize(request, self.request_format)
  else:
      req = self.request_cls()
  \<close>
\<close>

definition decode_request ::
  "library \<Rightarrow> Endpoint \<Rightarrow> endpoint_context \<Rightarrow> raw_request \<Rightarrow> keyword_args \<Rightarrow> exn + message" where
  "decode_request lib self endpoint_context request kw =
     (if truthy request then
        (case request of
           DictRequest d \<Rightarrow> Inr (new (request_cls self) d)
         | StrRequest s \<Rightarrow>
             if request_format self = ''jwt'' then
               deserialize (request_cls self) s ''jwt''
                 (Some (ctx_keyjar endpoint_context, verify_ssl endpoint_context, kw))
             else if request_format self = ''url'' then
               (case urlparse lib s of
                  Inl e \<Rightarrow> Inl e
                | Inr (scheme, netloc, path, params, query, fragment) \<Rightarrow>
                    deserialize (request_cls self) query ''urlencoded'' None)
             else deserialize (request_cls self) s (request_format self) None
         | NoRequest \<Rightarrow> Inr (new (request_cls self) []))
      else Inr (new (request_cls self) []))"

text \<open>
  Lines 97 to 115: the client is authenticated and the client id resolved. The result is
  the request (with \<^verbatim>\<open>client_id\<close> written into it when the delegate names one) and
  the resolved client id \<^verbatim>\<open>_client_id\<close>.
  \<^verbatim>\<open>
  _client_id = ''
  try:
      auth_info = self.client_authentication(endpoint_context, req, auth, **kwargs)
  except UnknownOrNoAuthnMethod:
      if not self.client_auth_method:
          pass
      else:
          raise UnAuthorizedClient()
  else:
      if 'client_id' in auth_info:
          req['client_id'] = auth_info['client_id']
          _client_id = auth_info['client_id']
      else:
          try:
              _client_id = req['client_id']
          except KeyError:
              pass
  \<close>
\<close>

definition authenticate_client ::
  "library \<Rightarrow> Endpoint \<Rightarrow> endpoint_context \<Rightarrow> message \<Rightarrow> string option \<Rightarrow> keyword_args
     \<Rightarrow> (exn + message \<times> string) \<times> Endpoint" where
  "authenticate_client lib self endpoint_context req auth kw =
     (case client_authentication lib self endpoint_context req auth kw of
        (Inl (UnknownOrNoAuthnMethod d), self') \<Rightarrow>
          if client_auth_method self' = [] then (Inr (req, []), self')
          else (Inl UnAuthorizedClient, self')
      | (Inl e, self') \<Rightarrow> (Inl e, self')
      | (Inr auth_info, self') \<Rightarrow>
          (case map_of auth_info ''client_id'' of
             Some cid \<Rightarrow> (Inr (AList.update ''client_id'' cid req, cid), self')
           | None \<Rightarrow>
               (case map_of req ''client_id'' of
                  Some cid \<Rightarrow> (Inr (req, cid), self')
                | None \<Rightarrow> (Inr (req, []), self'))))"

text \<open>
  Lines 117 to 136: the request is verified against its schema, the raw request is
  recorded as a protocol event when the context has an event sink, and the post-parse
  chain runs. The value the chain returns is not bound: the method returns \<^verbatim>\<open>req\<close>.
  \<^verbatim>\<open>__init__\<close> always sets \<^verbatim>\<open>self.keyjar\<close>, so the \<^verbatim>\<open>AttributeError\<close>
  fallback of lines 117 to 120 is not taken; the logging calls have no part in the result.
  \<^verbatim>\<open>
  try:
      req.verify(keyjar=keyjar, opponent_id=_client_id)
  except (MissingRequiredAttribute, ValueError, MissingRequiredValue) as err:
      return self.error_cls(error="invalid_request", error_description="%s" % err)

  if endpoint_context.events:
      endpoint_context.events.store('Protocol request', request)

  self.do_post_parse_request(endpoint_context, req, _client_id, **kwargs)
  return req
  \<close>
\<close>

definition verify_and_post_parse ::
  "Endpoint \<Rightarrow> endpoint_context \<Rightarrow> raw_request \<Rightarrow> message \<Rightarrow> string \<Rightarrow> keyword_args
     \<Rightarrow> (exn + message) \<times> Endpoint \<times> endpoint_context" where
  "verify_and_post_parse self endpoint_context request req client_id kw =
     (case verify (request_cls self) req (keyjar self) client_id of
        Inl err \<Rightarrow>
          (case caught_by_verification_handler err of
             Some detail \<Rightarrow>
               (Inr (new (error_cls self)
                       [(''error'', ''invalid_request''), (''error_description'', detail)]),
                self, endpoint_context)
           | None \<Rightarrow> (Inl err, self, endpoint_context))
      | Inr ok \<Rightarrow>
          (let ctx' = (case events endpoint_context of
                         None \<Rightarrow> endpoint_context
                       | Some evs \<Rightarrow>
                           endpoint_context\<lparr>events := Some (evs @ [(''Protocol request'', request)])\<rparr>)
           in case do_post_parse_request self ctx' req client_id kw of
                (Inl e, self') \<Rightarrow> (Inl e, self', ctx')
              | (Inr chained, self') \<Rightarrow> (Inr req, self', ctx')))"

text \<open>The whole method: the three parts in sequence, an exception ending it.\<close>

definition parse_request ::
  "library \<Rightarrow> Endpoint \<Rightarrow> endpoint_context \<Rightarrow> raw_request \<Rightarrow> string option \<Rightarrow> keyword_args
     \<Rightarrow> (exn + message) \<times> Endpoint \<times> endpoint_context" where
  "parse_request lib self endpoint_context request auth kw =
     (case decode_request lib self endpoint_context request kw of
        Inl e \<Rightarrow> (Inl e, self, endpoint_context)
      | Inr req0 \<Rightarrow>
          (case authenticate_client lib self endpoint_context req0 auth kw of
             (Inl e, self') \<Rightarrow> (Inl e, self', endpoint_context)
           | (Inr (req, client_id), self') \<Rightarrow>
               verify_and_post_parse self' endpoint_context request req client_id kw))"

subsection \<open>construct, response_info and do_response\<close>

text \<open>
  \<^verbatim>\<open>
  response_args = self.do_pre_construct(endpoint_context, response_args, request, **kwargs)
  response = self.response_cls(**response_args)
  return self.do_post_construct(endpoint_context, response, request, **kwargs)
  \<close>
\<close>

definition construct ::
  "Endpoint \<Rightarrow> endpoint_context \<Rightarrow> dict \<Rightarrow> message option \<Rightarrow> keyword_args \<Rightarrow> (exn + message) \<times> Endpoint" where
  "construct self endpoint_context response_args request kw =
     (case do_pre_construct self endpoint_context response_args request kw of
        (Inl e, self') \<Rightarrow> (Inl e, self')
      | (Inr response_args', self') \<Rightarrow>
          do_post_construct self' endpoint_context (new (response_cls self') response_args')
            request kw)"

definition response_info ::
  "Endpoint \<Rightarrow> endpoint_context \<Rightarrow> dict \<Rightarrow> message option \<Rightarrow> keyword_args \<Rightarrow> (exn + message) \<times> Endpoint" where
  "response_info self endpoint_context response_args request kw =
     construct self endpoint_context response_args request kw"

text \<open>
  What \<^verbatim>\<open>do_response\<close> can return: a message instance, or a dict whose values are a
  string, a header list or a message instance.
\<close>

datatype pyobj =
    Str string
  | HeaderList headers
  | Instance message
  | Dict "(string \<times> pyobj) list"

text \<open>
  \<^verbatim>\<open>
  if response_args is None:
      response_args = {}
  _response = self.response_info(endpoint_context, response_args, request, **kwargs)
  if 'error' in _response:
      return _response
  if self.response_placement == 'body':
      if self.response_format == 'json':
          content_type = 'application/json'
          resp = _response.to_json()
      else:
          content_type = 'application/x-www-form-urlencoded'
          resp = _response.to_urlencoded()
  elif self.response_placement == 'url':
      content_type = ''
      try:
          fragment_enc = kwargs['fragment_enc']
      except KeyError:
          fragment_enc = False
      if fragment_enc:
          resp = _response.request(kwargs['return_uri'], True)
      else:
          resp = _response.request(kwargs['return_uri'])
  else:
      raise ValueError("Don't know where that is: '{}".format(self.response_placement))
  if content_type:
      try:
          http_headers = set_content_type(kwargs['http_headers'], content_type)
      except KeyError:
          http_headers = [('Content-type', content_type)]
  else:
      http_headers = []
  http_headers.extend(OAUTH2_NOCACHE_HEADERS)
  return {'response': resp, 'http_headers': http_headers}
  \<close>
  Lines 218 to 239 give the content type and the serialised response, or raise.
  \<^verbatim>\<open>extend\<close> works on the list \<^verbatim>\<open>set_content_type\<close> returned, which is the
  caller's own list when the pair was already in it; the model gives the list that is
  returned, by value.
\<close>

definition place_response ::
  "library \<Rightarrow> Endpoint \<Rightarrow> message \<Rightarrow> keyword_args \<Rightarrow> exn + string \<times> string" where
  "place_response lib self response kw =
     (if response_placement self = ''body'' then
        (if response_format self = ''json'' then
           Inr (''application/json'', to_json lib response)
         else Inr (''application/x-www-form-urlencoded'', to_urlencoded lib response))
      else if response_placement self = ''url'' then
        (let fragment = (case fragment_enc kw of Some b \<Rightarrow> b | None \<Rightarrow> False)
         in case return_uri kw of
              None \<Rightarrow> Inl (KeyError ''return_uri'')
            | Some uri \<Rightarrow>
                if fragment then Inr ([], msg_request lib response uri True)
                else Inr ([], msg_request lib response uri False))
      else Inl (ValueError (''Don't know where that is: '' @ [CHR 0x27] @ response_placement self)))"

text \<open>\<^verbatim>\<open>if response_args is None: response_args = {}\<close>\<close>

fun or_empty :: "dict option \<Rightarrow> dict" where
  "or_empty None = []"
| "or_empty (Some response_args) = response_args"

definition do_response ::
  "library \<Rightarrow> Endpoint \<Rightarrow> endpoint_context \<Rightarrow> dict option \<Rightarrow> message option \<Rightarrow> keyword_args
     \<Rightarrow> (exn + pyobj) \<times> Endpoint" where
  "do_response lib self endpoint_context response_args request kw =
     (case response_info self endpoint_context (or_empty response_args) request kw of
        (Inl e, self') \<Rightarrow> (Inl e, self')
      | (Inr response, self') \<Rightarrow>
          if has_key ''error'' response then (Inr (Instance response), self')
          else
            (case place_response lib self' response kw of
               Inl e \<Rightarrow> (Inl e, self')
             | Inr (content_type, resp) \<Rightarrow>
                 (let hdrs = (if content_type \<noteq> [] then
                                (case http_headers kw of
                                   Some given \<Rightarrow> set_content_type given content_type
                                 | None \<Rightarrow> [(''Content-type'', content_type)])
                              else [])
                  in (Inr (Dict [(''response'', Str resp),
                                 (''http_headers'', HeaderList (hdrs @ OAUTH2_NOCACHE_HEADERS lib))]),
                      self'))))"

subsection \<open>do_response on list objects\<close>

text \<open>
  A Python list is an object: two names can hold the same list, and
  \<^verbatim>\<open>extend\<close> changes it for both. To follow that, header lists live in a store of
  list objects, addressed by position; a new list takes the next free address.
\<close>

type_synonym store = "headers list"

text \<open>
  \<^verbatim>\<open>set_content_type\<close> on a list object: line 41 returns the object it was given,
  lines 43 to 45 build and return a new one.
\<close>

definition set_content_type_obj :: "store \<Rightarrow> addr \<Rightarrow> string \<Rightarrow> addr \<times> store" where
  "set_content_type_obj st a content_type =
     (if (''Content-type'', content_type) \<in> set (st ! a) then (a, st)
      else (length st,
            st @ [[h \<leftarrow> st ! a. fst h \<noteq> ''Content-type''] @ [(''Content-type'', content_type)]]))"

text \<open>\<^verbatim>\<open>lst.extend(items)\<close> on the list object at an address.\<close>

definition extend :: "store \<Rightarrow> addr \<Rightarrow> headers \<Rightarrow> store" where
  "extend st a items = st[a := st ! a @ items]"

text \<open>
  \<^verbatim>\<open>do_response\<close> with the keyword argument \<^verbatim>\<open>http_headers\<close> given as the
  address of the caller's list (\<open>None\<close> when the key is absent). Hooks and serialisers
  read the list as it is at the call. Lines 241 to 250: the header list is the object
  \<^verbatim>\<open>set_content_type\<close> returns, or a new list, and it is extended in place. The
  result holds the final content of that list, and the store is returned as the call
  leaves it.
\<close>

definition do_response_obj ::
  "library \<Rightarrow> Endpoint \<Rightarrow> endpoint_context \<Rightarrow> dict option \<Rightarrow> message option \<Rightarrow> addr option
     \<Rightarrow> keyword_args \<Rightarrow> store \<Rightarrow> (exn + pyobj) \<times> Endpoint \<times> store" where
  "do_response_obj lib self endpoint_context response_args request given kw st =
     (let kwv = kw\<lparr>http_headers := map_option (\<lambda>a. st ! a) given\<rparr>
      in case response_info self endpoint_context (or_empty response_args) request kwv of
           (Inl e, self') \<Rightarrow> (Inl e, self', st)
         | (Inr response, self') \<Rightarrow>
             if has_key ''error'' response then (Inr (Instance response), self', st)
             else
               (case place_response lib self' response kwv of
                  Inl e \<Rightarrow> (Inl e, self', st)
                | Inr (content_type, resp) \<Rightarrow>
                    (let made = (if content_type \<noteq> [] then
                                   (case given of
                                      Some g \<Rightarrow> set_content_type_obj st g content_type
                                    | None \<Rightarrow> (length st, st @ [[(''Content-type'', content_type)]]))
                                 else (length st, st @ [[]]));
                         st' = extend (snd made) (fst made) (OAUTH2_NOCACHE_HEADERS lib)
                     in (Inr (Dict [(''response'', Str resp),
                                    (''http_headers'', HeaderList (st' ! fst made))]),
                         self', st'))))"

text \<open>
  What the endpoint's \<^verbatim>\<open>kwargs\<close> hold in a store: each key with its text, or with
  the content of the list it names.
\<close>

definition kwargs_content :: "store \<Rightarrow> Endpoint \<Rightarrow> (string \<times> (string + headers)) list" where
  "kwargs_content st self =
     map (\<lambda>(k, v). (k, case v of Text s \<Rightarrow> Inl s | ListAt a \<Rightarrow> Inr (st ! a))) (kwargs self)"

section \<open>Reference collaborators for running the pipeline\<close>

text \<open>
  The theorems below hold for every library and every message class. To run the pipeline
  on concrete inputs, this section gives reference versions of the collaborators, written
  after the documented behaviour of Python's standard library and of the message library.
\<close>

subsection \<open>urllib.parse.urlparse\<close>

definition scheme_chars :: string where
  "scheme_chars =
     ''abcdefghijklmnopqrstuvwxyz'' @ ''ABCDEFGHIJKLMNOPQRSTUVWXYZ'' @ ''0123456789'' @ ''+-.''"

definition lower :: "char \<Rightarrow> char" where
  "lower c =
     (case map_of (zip ''ABCDEFGHIJKLMNOPQRSTUVWXYZ'' ''abcdefghijklmnopqrstuvwxyz'') c of
        Some l \<Rightarrow> l
      | None \<Rightarrow> c)"

text \<open>\<^verbatim>\<open>s.split(c, 1)\<close> for a string that contains \<open>c\<close>: the text before and after the first \<open>c\<close>.\<close>

definition split_once :: "char \<Rightarrow> string \<Rightarrow> string \<times> string" where
  "split_once c s = (takeWhile (\<lambda>x. x \<noteq> c) s, tl (dropWhile (\<lambda>x. x \<noteq> c) s))"

text \<open>
  The scheme: the text before the first colon when it is not empty and holds scheme
  characters only, and what follows is not a port number.
\<close>

definition split_scheme :: "string \<Rightarrow> string \<times> string" where
  "split_scheme url =
     (let pre = fst (split_once CHR '':'' url); rest = snd (split_once CHR '':'' url)
      in if CHR '':'' \<in> set url \<and> pre \<noteq> [] \<and>
            (pre = ''http'' \<or>
             (list_all (\<lambda>c. c \<in> set scheme_chars) pre \<and>
              (rest = [] \<or> list_ex (\<lambda>c. c \<notin> set ''0123456789'') rest)))
         then (map lower pre, rest)
         else ([], url))"

text \<open>The network location: after a leading \<^verbatim>\<open>//\<close>, up to the first of \<^verbatim>\<open>/?#\<close>.\<close>

definition split_netloc :: "string \<Rightarrow> string \<times> string" where
  "split_netloc url =
     (if take 2 url = ''//'' then
        (takeWhile (\<lambda>c. c \<notin> set ''/?#'') (drop 2 url),
         dropWhile (\<lambda>c. c \<notin> set ''/?#'') (drop 2 url))
      else ([], url))"

text \<open>The parameters of the last path segment, for the schemes that have them.\<close>

definition uses_params :: "string list" where
  "uses_params =
     [[], ''ftp'', ''hdl'', ''prospero'', ''http'', ''imap'', ''https'', ''shttp'', ''rtsp'',
      ''rtspu'', ''sip'', ''sips'', ''mms'', ''sftp'', ''tel'']"

definition split_params :: "string \<Rightarrow> string \<times> string" where
  "split_params url =
     (let segment = rev (takeWhile (\<lambda>c. c \<noteq> CHR ''/'') (rev url));
          before = take (length url - length segment) url
      in if CHR '';'' \<in> set segment
         then (before @ fst (split_once CHR '';'' segment), snd (split_once CHR '';'' segment))
         else (url, []))"

definition py_urlparse ::
  "string \<Rightarrow> exn + (string \<times> string \<times> string \<times> string \<times> string \<times> string)" where
  "py_urlparse url0 =
     (let scheme = fst (split_scheme url0); url1 = snd (split_scheme url0);
          netloc = fst (split_netloc url1); url2 = snd (split_netloc url1);
          fragment = (if CHR ''#'' \<in> set url2 then snd (split_once CHR ''#'' url2) else []);
          url3 = (if CHR ''#'' \<in> set url2 then fst (split_once CHR ''#'' url2) else url2);
          query = (if CHR ''?'' \<in> set url3 then snd (split_once CHR ''?'' url3) else []);
          url4 = (if CHR ''?'' \<in> set url3 then fst (split_once CHR ''?'' url3) else url3);
          with_params = (scheme \<in> set uses_params \<and> CHR '';'' \<in> set url4);
          path = (if with_params then fst (split_params url4) else url4);
          params = (if with_params then snd (split_params url4) else [])
      in if (CHR ''['' \<in> set netloc) \<noteq> (CHR '']'' \<in> set netloc)
         then Inl (ValueError ''Invalid IPv6 URL'')
         else Inr (scheme, netloc, path, params, query, fragment))"

subsection \<open>The base message class\<close>

text \<open>\<^verbatim>\<open>s.split(c)\<close>: the pieces of \<open>s\<close> between the occurrences of \<open>c\<close>.\<close>

fun split_all :: "char \<Rightarrow> string \<Rightarrow> string list" where
  "split_all c [] = [[]]"
| "split_all c (x # xs) =
     (if x = c then [] # split_all c xs
      else (case split_all c xs of
              [] \<Rightarrow> [[x]]
            | w # ws \<Rightarrow> (x # w) # ws))"

text \<open>
  Form decoding as \<^verbatim>\<open>parse_qs\<close> does it with its defaults: pairs are separated by
  \<^verbatim>\<open>&\<close>, a pair with no \<^verbatim>\<open>=\<close> or with an empty value is skipped, and \<^verbatim>\<open>+\<close>
  stands for a space. The reference decoder covers the queries with no percent escape, no
  semicolon and no repeated name, and answers \<open>OtherException\<close> outside them. A text
  that is not empty and decodes to nothing is a format error of the message library.
\<close>

definition plus_to_space :: "string \<Rightarrow> string" where
  "plus_to_space s = map (\<lambda>c. if c = CHR ''+'' then CHR '' '' else c) s"

definition parse_qsl :: "string \<Rightarrow> (string \<times> string) list" where
  "parse_qsl qs =
     map (\<lambda>nv. (plus_to_space (fst (split_once CHR ''='' nv)),
                 plus_to_space (snd (split_once CHR ''='' nv))))
       (filter (\<lambda>nv. CHR ''='' \<in> set nv \<and> snd (split_once CHR ''='' nv) \<noteq> [])
          (split_all CHR ''&'' qs))"

definition from_urlencoded :: "string \<Rightarrow> exn + message" where
  "from_urlencoded urlencoded =
     (if CHR ''%'' \<in> set urlencoded \<or> CHR '';'' \<in> set urlencoded
         \<or> \<not> distinct (map fst (parse_qsl urlencoded))
      then Inl (OtherException ''outside the reference decoder'')
      else if urlencoded \<noteq> [] \<and> parse_qsl urlencoded = []
      then Inl (OtherException ''Wrong format'')
      else Inr (parse_qsl urlencoded))"

text \<open>
  A message class with no declared parameters: the constructor keeps the keyword
  arguments, only form-encoded text is decoded here, and verification accepts.
\<close>

definition Message :: message_cls where
  "Message =
     \<lparr>new = (\<lambda>d. d),
      deserialize = (\<lambda>s fmt extra.
         if fmt = ''urlencoded'' then from_urlencoded s
         else Inl (OtherException ''format outside the reference class'')),
      verify = (\<lambda>m kj opponent_id. Inr ())\<rparr>"

text \<open>
  A request class with one required parameter, \<^verbatim>\<open>resource\<close>: verification raises
  \<^verbatim>\<open>MissingRequiredAttribute\<close> when the request does not hold it, and an exception
  of another class when the request names an audience that is not the expected
  counterpart.
\<close>

definition ResourceRequest :: message_cls where
  "ResourceRequest =
     Message\<lparr>verify := (\<lambda>m kj opponent_id.
        if \<not> has_key ''resource'' m then Inl (MissingRequiredAttribute ''resource'')
        else if has_key ''aud'' m \<and> map_of m ''aud'' \<noteq> Some opponent_id
        then Inl (OtherException ''NotForMe'')
        else Inr ())\<rparr>"

subsection \<open>Serialisers, the authentication delegate and the no-cache headers\<close>

text \<open>
  \<^verbatim>\<open>json.dumps\<close> of an object of strings, with the default separators; only the
  quotation mark and the backslash are escaped.
\<close>

definition json_string :: "string \<Rightarrow> string" where
  "json_string s =
     [CHR 0x22] @ concat (map (\<lambda>c. if c = CHR 0x22 \<or> c = CHR 0x5C then [CHR 0x5C, c] else [c]) s)
       @ [CHR 0x22]"

fun json_members :: "message \<Rightarrow> string" where
  "json_members [] = []"
| "json_members [(k, v)] = json_string k @ '': '' @ json_string v"
| "json_members ((k, v) # rest) = json_string k @ '': '' @ json_string v @ '', '' @ json_members rest"

definition json_dumps :: "message \<Rightarrow> string" where
  "json_dumps m = ''{'' @ json_members m @ ''}''"

fun urlencode :: "message \<Rightarrow> string" where
  "urlencode [] = []"
| "urlencode [(k, v)] = k @ ''='' @ v"
| "urlencode ((k, v) # rest) = k @ ''='' @ v @ ''&'' @ urlencode rest"

text \<open>
  \<^verbatim>\<open>Message.request(location, fragment_enc)\<close>: the parameters after \<^verbatim>\<open>#\<close> when
  fragment encoded, otherwise in the query string.
\<close>

definition request_url :: "message \<Rightarrow> string \<Rightarrow> bool \<Rightarrow> string" where
  "request_url m location fragment =
     (if fragment then location @ ''#'' @ urlencode m
      else if CHR ''?'' \<in> set location then location @ ''&'' @ urlencode m
      else location @ ''?'' @ urlencode m)"

text \<open>
  A delegate with one method: a credential names the client. Without a credential it
  signals that no recognised method was used.
\<close>

definition credential_names_client :: "endpoint_context \<Rightarrow> message \<Rightarrow> string option \<Rightarrow> exn + dict" where
  "credential_names_client endpoint_context request auth =
     (case auth of
        None \<Rightarrow> Inl (UnknownOrNoAuthnMethod [])
      | Some credential \<Rightarrow> Inr [(''client_id'', credential)])"

text \<open>
  Modelled from the spec: the constant \<^verbatim>\<open>OAUTH2_NOCACHE_HEADERS\<close> of
  \<^verbatim>\<open>oidcendpoint.util\<close>, which is not among the sources. The spec calls it a fixed
  pair of no-cache-directive headers, cache-control and pragma no-cache.
\<close>

definition nocache_headers :: headers where
  "nocache_headers = [(''Pragma'', ''no-cache''), (''Cache-Control'', ''no-store'')]"

definition reference_library :: library where
  "reference_library =
     \<lparr>urlparse = py_urlparse,
      verify_client = credential_names_client,
      OAUTH2_NOCACHE_HEADERS = nocache_headers,
      to_json = json_dumps,
      to_urlencoded = urlencode,
      msg_request = request_url\<rparr>"

subsection \<open>An endpoint, a context and hooks\<close>

text \<open>An endpoint with the class attributes as the class declares them and no hooks.\<close>

definition plain_endpoint :: Endpoint where
  "plain_endpoint =
     \<lparr>request_cls = Message, response_cls = Message, error_cls = Message,
      endpoint_name = [], endpoint_path = [],
      request_format = ''urlencoded'', request_placement = ''query'',
      response_format = ''json'', response_placement = ''body'',
      client_auth_method = [],
      keyjar = KeyJar [], pre_construct = [], post_construct = [], post_parse_request = [],
      kwargs = []\<rparr>"

text \<open>The same endpoint with a request class that requires \<^verbatim>\<open>resource\<close>.\<close>

definition resource_endpoint :: Endpoint where
  "resource_endpoint = plain_endpoint\<lparr>request_cls := ResourceRequest\<rparr>"

definition plain_context :: endpoint_context where
  "plain_context = \<lparr>ctx_keyjar = KeyJar [], verify_ssl = False, events = None\<rparr>"

definition no_kwargs :: keyword_args where
  "no_kwargs = \<lparr>http_headers = None, fragment_enc = None, return_uri = None, more_kwargs = []\<rparr>"

text \<open>Keyword arguments of a redirect, with a header list of the caller.\<close>

definition redirect_kwargs :: keyword_args where
  "redirect_kwargs =
     \<lparr>http_headers = Some [(''X-Frame-Options'', ''deny'')], fragment_enc = Some False,
      return_uri = Some ''https://rp.example/cb'', more_kwargs = []\<rparr>"

text \<open>A post-parse hook that answers a new request in place of the one it is given.\<close>

definition replacing_hook :: "string hook" where
  "replacing_hook endpoint_context request client_id kw = Inr [(''replaced'', ''yes'')]"



text \<open>
  An endpoint constructed with \<^verbatim>\<open>http_headers=[('Content-type', 'application/json')]\<close>:
  its \<^verbatim>\<open>kwargs\<close> name that list, which is the one object of the store.
\<close>

definition headers_endpoint :: Endpoint where
  "headers_endpoint = plain_endpoint\<lparr>kwargs := [(''http_headers'', ListAt 0)]\<rparr>"

definition headers_store :: store where
  "headers_store = [[(''Content-type'', ''application/json'')]]"

section \<open>Properties of the header utility\<close>

lemma set_content_type_present:
  "(''Content-type'', c) \<in> set (set_content_type hs c)"
  by (simp add: set_content_type_def)

lemma set_content_type_fresh:
  "(''Content-type'', c) \<notin> set hs \<Longrightarrow>
     content_type_entries (set_content_type hs c) = [(''Content-type'', c)]"
  by (simp add: set_content_type_def content_type_entries_def)

lemma single_entry_is_the_pair:
  assumes "length (content_type_entries hs) \<le> 1"
    and "(''Content-type'', c) \<in> set hs"
  shows "content_type_entries hs = [(''Content-type'', c)]"
proof -
  from assms(2) have mem: "(''Content-type'', c) \<in> set (content_type_entries hs)"
    by (simp add: content_type_entries_def)
  then obtain x xs where shape: "content_type_entries hs = x # xs"
    by (cases "content_type_entries hs") auto
  with assms(1) have "xs = []" by simp
  with shape mem show ?thesis by simp
qed

lemma distinct_names_one_entry:
  "distinct (map fst hs) \<Longrightarrow> length (content_type_entries hs) \<le> 1"
proof (induction hs)
  case Nil
  then show ?case by (simp add: content_type_entries_def)
next
  case (Cons h hs)
  show ?case
  proof (cases "fst h = ''Content-type''")
    case True
    with Cons.prems have "\<forall>x \<in> set hs. fst x \<noteq> ''Content-type''" by force
    then have "[x \<leftarrow> hs. fst x = ''Content-type''] = []" by (simp add: filter_empty_conv)
    with True show ?thesis by (simp add: content_type_entries_def)
  next
    case False
    with Cons show ?thesis by (simp add: content_type_entries_def)
  qed
qed

text \<open>
  Claim C3, as stated, at the header list
  \<^verbatim>\<open>[('Content-type', 'text/html'), ('Content-type', 'text/plain')]\<close> and the content
  type \<^verbatim>\<open>text/html\<close>: the exact pair is already present, the list is returned as it
  is, and the result holds two entries named \<^verbatim>\<open>Content-type\<close>, not exactly one.
\<close>

theorem C3_two_content_types_counterexample:
  "content_type_entries
     (set_content_type [(''Content-type'', ''text/html''), (''Content-type'', ''text/plain'')]
        ''text/html'')
   \<noteq> [(''Content-type'', ''text/html'')]"
  by (simp add: set_content_type_def content_type_entries_def)

text \<open>
  Claim C3, amended: for every header list \<open>H\<close> and content type \<open>C\<close>,
  \<^verbatim>\<open>set_content_type\<close> is idempotent and its result contains the entry
  \<^verbatim>\<open>('Content-type', C)\<close>. The result holds exactly one entry named
  \<^verbatim>\<open>Content-type\<close>, with value \<open>C\<close>, exactly when \<open>H\<close> does not already hold the
  pair \<^verbatim>\<open>('Content-type', C)\<close> or that pair is the only entry of \<open>H\<close> named
  \<^verbatim>\<open>Content-type\<close>; so it does for every \<open>H\<close> in which no header name occurs twice.
\<close>

theorem C3_set_content_type_idempotent:
  "set_content_type (set_content_type H C) C = set_content_type H C
   \<and> (''Content-type'', C) \<in> set (set_content_type H C)
   \<and> ((content_type_entries (set_content_type H C) = [(''Content-type'', C)])
        = ((''Content-type'', C) \<notin> set H \<or> content_type_entries H = [(''Content-type'', C)]))
   \<and> (distinct (map fst H) \<longrightarrow>
        content_type_entries (set_content_type H C) = [(''Content-type'', C)])"
proof -
  have idem: "set_content_type (set_content_type H C) C = set_content_type H C"
    by (simp add: set_content_type_def)
  have present: "(''Content-type'', C) \<in> set (set_content_type H C)"
    by (rule set_content_type_present)
  have exact: "(content_type_entries (set_content_type H C) = [(''Content-type'', C)])
        = ((''Content-type'', C) \<notin> set H \<or> content_type_entries H = [(''Content-type'', C)])"
  proof (cases "(''Content-type'', C) \<in> set H")
    case True
    then have "set_content_type H C = H" by (simp add: set_content_type_def)
    with True show ?thesis by simp
  next
    case False
    with set_content_type_fresh [OF False] show ?thesis by simp
  qed
  have names: "distinct (map fst H) \<longrightarrow>
        content_type_entries (set_content_type H C) = [(''Content-type'', C)]"
  proof
    assume "distinct (map fst H)"
    then have one: "length (content_type_entries H) \<le> 1" by (rule distinct_names_one_entry)
    show "content_type_entries (set_content_type H C) = [(''Content-type'', C)]"
    proof (cases "(''Content-type'', C) \<in> set H")
      case True
      with one have "content_type_entries H = [(''Content-type'', C)]"
        by (simp add: single_entry_is_the_pair)
      with exact show ?thesis by simp
    next
      case False
      then show ?thesis by (rule set_content_type_fresh)
    qed
  qed
  from idem present exact names show ?thesis by blast
qed

text \<open>
  A list with two old entries and a new content type, and a list with no name twice that
  already holds the pair.
\<close>

theorem C3_set_content_type_idempotent_witness:
  "(''Content-type'', ''application/json'')
       \<notin> set [(''Content-type'', ''text/html''), (''Accept'', ''*/*''), (''Content-type'', ''text/plain'')]
   \<and> set_content_type
         [(''Content-type'', ''text/html''), (''Accept'', ''*/*''), (''Content-type'', ''text/plain'')]
         ''application/json''
       = [(''Accept'', ''*/*''), (''Content-type'', ''application/json'')]
   \<and> content_type_entries
        (set_content_type
           [(''Content-type'', ''text/html''), (''Accept'', ''*/*''), (''Content-type'', ''text/plain'')]
           ''application/json'')
       = [(''Content-type'', ''application/json'')]
   \<and> distinct (map fst [(''Accept'', ''*/*''), (''Content-type'', ''application/json'')])
   \<and> content_type_entries
        (set_content_type [(''Accept'', ''*/*''), (''Content-type'', ''application/json'')]
           ''application/json'')
       = [(''Content-type'', ''application/json'')]"
proof -
  let ?H = "[(''Content-type'', ''text/html''), (''Accept'', ''*/*''), (''Content-type'', ''text/plain'')]"
  let ?D = "[(''Accept'', ''*/*''), (''Content-type'', ''application/json'')]"
  have a: "(''Content-type'', ''application/json'') \<notin> set ?H" by simp
  have v: "set_content_type ?H ''application/json'' = ?D"
    by (simp add: set_content_type_def)
  have d: "distinct (map fst ?D)" by simp
  from C3_set_content_type_idempotent [of ?H "''application/json''"] a
  have e1: "content_type_entries (set_content_type ?H ''application/json'')
              = [(''Content-type'', ''application/json'')]"
    by blast
  from C3_set_content_type_idempotent [of ?D "''application/json''"] d
  have e2: "content_type_entries (set_content_type ?D ''application/json'')
              = [(''Content-type'', ''application/json'')]"
    by blast
  from a v e1 d e2 show ?thesis by blast
qed

section \<open>Evaluating the reference collaborators\<close>

lemmas pipeline_defs =
  parse_request_def decode_request_def authenticate_client_def verify_and_post_parse_def
  client_authentication_def do_post_parse_request_def do_pre_construct_def
  do_post_construct_def construct_def response_info_def do_response_def place_response_def
  has_key_def set_content_type_def

lemmas reference_defs =
  reference_library_def plain_endpoint_def resource_endpoint_def plain_context_def
  no_kwargs_def Message_def ResourceRequest_def credential_names_client_def
  nocache_headers_def replacing_hook_def

lemma example_url_parsed:
  "py_urlparse ''https://op.example/authorize?foo=bar&baz=qux''
     = Inr (''https'', ''op.example'', ''/authorize'', [], ''foo=bar&baz=qux'', [])"
  by (simp add: py_urlparse_def split_scheme_def split_netloc_def split_once_def
      split_params_def scheme_chars_def lower_def uses_params_def Let_def)

lemma example_query_decoded:
  "from_urlencoded ''foo=bar&baz=qux'' = Inr [(''foo'', ''bar''), (''baz'', ''qux'')]"
  by (simp add: from_urlencoded_def parse_qsl_def split_once_def plus_to_space_def)

lemma example_json:
  "json_dumps [(''subject'', ''acct:foo@example.com'')]
     = [CHR ''{'', CHR 0x22] @ ''subject'' @ [CHR 0x22] @ '': '' @ [CHR 0x22]
       @ ''acct:foo@example.com'' @ [CHR 0x22, CHR ''}'']"
  by (simp add: json_dumps_def json_string_def)

section \<open>What a call leaves of the endpoint\<close>

text \<open>By value, each method hands back the endpoint it was called on.\<close>

lemma client_authentication_self:
  "snd (client_authentication lib self ctx req auth kw) = self"
  by (simp add: client_authentication_def)

lemma do_post_parse_request_self:
  "snd (do_post_parse_request self ctx req client_id kw) = self"
  by (simp add: do_post_parse_request_def)

lemma do_pre_construct_self:
  "snd (do_pre_construct self ctx response_args request kw) = self"
  by (simp add: do_pre_construct_def)

lemma do_post_construct_self:
  "snd (do_post_construct self ctx response request kw) = self"
  by (simp add: do_post_construct_def)

lemma construct_self:
  "snd (construct self ctx response_args request kw) = self"
  by (simp add: construct_def do_pre_construct_def do_post_construct_def split: sum.splits)

lemma response_info_self:
  "snd (response_info self ctx response_args request kw) = self"
  by (simp add: response_info_def construct_self)

lemma authenticate_client_self:
  "snd (authenticate_client lib self ctx req auth kw) = self"
  by (simp add: authenticate_client_def client_authentication_def
      split: sum.splits exn.splits option.splits)

text \<open>
  On list objects, \<^verbatim>\<open>set_content_type\<close> followed by \<^verbatim>\<open>extend\<close> gives the list
  the by-value functions give, and touches no object but the one it was given.
\<close>

lemma set_content_type_obj_value:
  assumes "g < length st"
  shows "extend (snd (set_content_type_obj st g c)) (fst (set_content_type_obj st g c)) items
           ! fst (set_content_type_obj st g c)
         = set_content_type (st ! g) c @ items"
  using assms by (simp add: set_content_type_obj_def set_content_type_def extend_def nth_append)

lemma set_content_type_obj_others:
  assumes "a < length st" and "a \<noteq> g" and "g < length st"
  shows "extend (snd (set_content_type_obj st g c)) (fst (set_content_type_obj st g c)) items ! a
         = st ! a"
  using assms by (simp add: set_content_type_obj_def extend_def nth_append)

text \<open>The list objects agree with the by-value \<^verbatim>\<open>do_response\<close> on what is returned.\<close>

lemma do_response_obj_value:
  assumes "g < length st"
  shows "fst (do_response_obj lib self ctx response_args request (Some g) kw st)
         = fst (do_response lib self ctx response_args request (kw\<lparr>http_headers := Some (st ! g)\<rparr>))"
proof -
  let ?kwv = "kw\<lparr>http_headers := Some (st ! g)\<rparr>"
  obtain r self' where ri: "response_info self ctx (or_empty response_args) request ?kwv = (r, self')"
    by (cases "response_info self ctx (or_empty response_args) request ?kwv")
  show ?thesis
  proof (cases r)
    case (Inl e)
    with ri show ?thesis by (simp add: do_response_obj_def do_response_def)
  next
    case (Inr response)
    show ?thesis
    proof (cases "place_response lib self' response ?kwv")
      case (Inl e)
      with ri Inr show ?thesis by (simp add: do_response_obj_def do_response_def)
    next
      case placed: (Inr p)
      obtain content_type resp where p: "p = (content_type, resp)" by (cases p)
      show ?thesis
      proof (cases "content_type = []")
        case True
        with ri Inr placed p show ?thesis
          by (simp add: do_response_obj_def do_response_def extend_def)
      next
        case False
        with ri Inr placed p set_content_type_obj_value [OF assms] show ?thesis
          by (simp add: do_response_obj_def do_response_def Let_def)
      qed
    qed
  qed
qed

text \<open>
  Claim C9 at an endpoint constructed with
  \<^verbatim>\<open>http_headers=[('Content-type', 'application/json')]\<close> and a call
  \<^verbatim>\<open>do_response(ctx, {'subject': 'acct:foo@example.com'}, http_headers=ep.kwargs['http_headers'])\<close>:
  the pair is already in the list, line 41 returns the caller's list and line 250 extends
  it, so after the call the endpoint's \<^verbatim>\<open>kwargs\<close> hold a list with the two no-cache
  headers added.
\<close>

theorem C9_kwargs_list_extended:
  "kwargs_content headers_store headers_endpoint
     = [(''http_headers'', Inr [(''Content-type'', ''application/json'')])]
   \<and> kwargs_content
        (snd (snd (do_response_obj reference_library headers_endpoint plain_context
                     (Some [(''subject'', ''acct:foo@example.com'')]) None (Some 0) no_kwargs
                     headers_store)))
        (fst (snd (do_response_obj reference_library headers_endpoint plain_context
                     (Some [(''subject'', ''acct:foo@example.com'')]) None (Some 0) no_kwargs
                     headers_store)))
     = [(''http_headers'',
         Inr [(''Content-type'', ''application/json''), (''Pragma'', ''no-cache''),
              (''Cache-Control'', ''no-store'')])]"
  by (simp add: kwargs_content_def headers_store_def headers_endpoint_def do_response_obj_def
      set_content_type_obj_def extend_def pipeline_defs reference_defs)

section \<open>The value parse_request returns\<close>

lemma parse_request_returns_verified_request:
  assumes "verify (request_cls self) req (keyjar self) client_id = Inr ok"
    and "fst (do_post_parse_request self ctx' req client_id kw) = Inr chained"
    and "ctx' = (case events ctx of None \<Rightarrow> ctx
                 | Some evs \<Rightarrow> ctx\<lparr>events := Some (evs @ [(''Protocol request'', request)])\<rparr>)"
  shows "fst (verify_and_post_parse self ctx request req client_id kw) = Inr req"
  using assms
  by (cases "do_post_parse_request self ctx' req client_id kw")
     (simp add: verify_and_post_parse_def Let_def)

text \<open>
  Claim C1 at an endpoint whose post-parse chain is one hook that answers a new request
  \<^verbatim>\<open>{'replaced': 'yes'}\<close>, on the raw request \<^verbatim>\<open>{'scope': 'openid'}\<close> with no
  credential: the chain runner returns the replacement, and \<^verbatim>\<open>parse_request\<close>
  returns the request as decoded, not the chain's value.
\<close>

theorem C1_chain_value_dropped:
  "fst (do_post_parse_request (plain_endpoint\<lparr>post_parse_request := [replacing_hook]\<rparr>)
          plain_context [(''scope'', ''openid'')] [] no_kwargs)
     = Inr [(''replaced'', ''yes'')]
   \<and> fst (parse_request reference_library
            (plain_endpoint\<lparr>post_parse_request := [replacing_hook]\<rparr>)
            plain_context (DictRequest [(''scope'', ''openid'')]) None no_kwargs)
     = Inr [(''scope'', ''openid'')]"
  by (simp add: pipeline_defs reference_defs)

section \<open>Error responses\<close>

text \<open>
  Claim C2, as stated, at the response arguments \<^verbatim>\<open>{'error': 'access_denied'}\<close> on an
  endpoint with no hooks: \<^verbatim>\<open>response_info\<close> gives the instance holding that field,
  and \<^verbatim>\<open>do_response\<close> does not return the mapping \<^verbatim>\<open>{'response': instance}\<close>.
\<close>

theorem C2_not_wrapped_counterexample:
  "fst (response_info plain_endpoint plain_context [(''error'', ''access_denied'')] None no_kwargs)
     = Inr [(''error'', ''access_denied'')]
   \<and> fst (do_response reference_library plain_endpoint plain_context
            (Some [(''error'', ''access_denied'')]) None no_kwargs)
     \<noteq> Inr (Dict [(''response'', Instance [(''error'', ''access_denied'')])])"
  by (simp add: pipeline_defs reference_defs)

text \<open>
  Claim C2, amended: when the value \<^verbatim>\<open>response_info\<close> returns carries an
  \<^verbatim>\<open>error\<close> field, \<^verbatim>\<open>do_response\<close> returns that value itself, the instance and not
  a mapping around it: nothing is serialised and no header is added.
\<close>

theorem C2_error_response_returned_as_is:
  assumes "fst (response_info self ctx (or_empty response_args) request kw) = Inr response"
    and "has_key ''error'' response"
  shows "fst (do_response lib self ctx response_args request kw) = Inr (Instance response)"
  using assms
  by (cases "response_info self ctx (or_empty response_args) request kw")
     (simp add: do_response_def)

theorem C2_error_response_returned_as_is_witness:
  "fst (response_info plain_endpoint plain_context (or_empty (Some [(''error'', ''access_denied'')]))
          None no_kwargs)
     = Inr [(''error'', ''access_denied'')]
   \<and> has_key ''error'' [(''error'', ''access_denied'')]
   \<and> fst (do_response reference_library plain_endpoint plain_context
            (Some [(''error'', ''access_denied'')]) None no_kwargs)
     = Inr (Instance [(''error'', ''access_denied'')])"
proof -
  have r: "fst (response_info plain_endpoint plain_context
                  (or_empty (Some [(''error'', ''access_denied'')])) None no_kwargs)
             = Inr [(''error'', ''access_denied'')]"
    by (simp add: pipeline_defs reference_defs)
  have e: "has_key ''error'' [(''error'', ''access_denied'')]"
    by (simp add: has_key_def)
  from C2_error_response_returned_as_is [OF r e, of reference_library] r e
  show ?thesis by simp
qed

section \<open>Decoding a URL request\<close>

text \<open>
  Claim C8: on an endpoint whose request format is \<^verbatim>\<open>url\<close>, a raw request that is a
  URL string is decoded by form-decoding the query component that \<^verbatim>\<open>urlparse\<close>
  gives, and nothing else of the URL: scheme, host, path, parameters and fragment do not
  reach the decoder.
\<close>

theorem C8_url_request_decodes_query:
  assumes "request_format self = ''url''"
    and "url \<noteq> []"
    and "urlparse lib url = Inr (scheme, netloc, path, params, query, fragment)"
  shows "decode_request lib self ctx (StrRequest url) kw
           = deserialize (request_cls self) query ''urlencoded'' None"
  using assms by (simp add: decode_request_def)

text \<open>
  With the reference \<^verbatim>\<open>urlparse\<close> and the base message class, the URL
  \<^verbatim>\<open>https://op.example/authorize?foo=bar&baz=qux\<close> decodes to exactly
  \<^verbatim>\<open>{foo: "bar", baz: "qux"}\<close>, and that is the request \<^verbatim>\<open>parse_request\<close> returns
  when no credential is given.
\<close>

theorem C8_url_request_decodes_query_witness:
  "request_format (plain_endpoint\<lparr>request_format := ''url''\<rparr>) = ''url''
   \<and> ''https://op.example/authorize?foo=bar&baz=qux'' \<noteq> []
   \<and> urlparse reference_library ''https://op.example/authorize?foo=bar&baz=qux''
       = Inr (''https'', ''op.example'', ''/authorize'', [], ''foo=bar&baz=qux'', [])
   \<and> decode_request reference_library (plain_endpoint\<lparr>request_format := ''url''\<rparr>)
         plain_context (StrRequest ''https://op.example/authorize?foo=bar&baz=qux'') no_kwargs
       = Inr [(''foo'', ''bar''), (''baz'', ''qux'')]
   \<and> fst (parse_request reference_library (plain_endpoint\<lparr>request_format := ''url''\<rparr>)
         plain_context (StrRequest ''https://op.example/authorize?foo=bar&baz=qux'') None
         no_kwargs)
       = Inr [(''foo'', ''bar''), (''baz'', ''qux'')]"
proof -
  let ?E = "plain_endpoint\<lparr>request_format := ''url''\<rparr>"
  let ?url = "''https://op.example/authorize?foo=bar&baz=qux''"
  have f: "request_format ?E = ''url''" by simp
  have n: "?url \<noteq> []" by simp
  have u: "urlparse reference_library ?url
             = Inr (''https'', ''op.example'', ''/authorize'', [], ''foo=bar&baz=qux'', [])"
    by (simp add: reference_library_def example_url_parsed)
  have d: "decode_request reference_library ?E plain_context (StrRequest ?url) no_kwargs
             = Inr [(''foo'', ''bar''), (''baz'', ''qux'')]"
    using C8_url_request_decodes_query [OF f n u, of plain_context no_kwargs]
    by (simp add: plain_endpoint_def Message_def example_query_decoded)
  have p: "fst (parse_request reference_library ?E plain_context (StrRequest ?url) None no_kwargs)
             = Inr [(''foo'', ''bar''), (''baz'', ''qux'')]"
    by (simp add: parse_request_def d)
       (simp add: authenticate_client_def client_authentication_def verify_and_post_parse_def
          do_post_parse_request_def reference_defs)
  from f n u d p show ?thesis by blast
qed

section \<open>Client authentication\<close>




section \<open>Verification failures\<close>

lemma authenticate_client_result:
  assumes "fst (authenticate_client lib self ctx req0 auth kw) = r"
  shows "authenticate_client lib self ctx req0 auth kw = (r, self)"
  using assms authenticate_client_self [of lib self ctx req0 auth kw]
  by (cases "authenticate_client lib self ctx req0 auth kw") simp

lemma not_caught:
  assumes "\<forall>d. err \<noteq> MissingRequiredAttribute d \<and> err \<noteq> MissingRequiredValue d \<and> err \<noteq> ValueError d"
  shows "caught_by_verification_handler err = None"
  using assms by (cases err) simp_all

text \<open>
  Claim C4: when verifying the decoded and authenticated request raises a
  missing-required-attribute error, a missing-required-value error or a \<^verbatim>\<open>ValueError\<close>
  with detail \<open>d\<close>, \<^verbatim>\<open>parse_request\<close> does not raise: it returns the instance the
  error class builds from \<^verbatim>\<open>error="invalid_request"\<close> and
  \<^verbatim>\<open>error_description=d\<close>. An exception of any other class leaves
  \<^verbatim>\<open>parse_request\<close> as it was raised.
\<close>

theorem C4_verification_failure:
  assumes "decode_request lib self ctx request kw = Inr req0"
    and "fst (authenticate_client lib self ctx req0 auth kw) = Inr (req, client_id)"
    and "verify (request_cls self) req (keyjar self) client_id = Inl err"
  shows "(err = MissingRequiredAttribute d \<or> err = MissingRequiredValue d \<or> err = ValueError d
            \<longrightarrow> fst (parse_request lib self ctx request auth kw)
                  = Inr (new (error_cls self)
                           [(''error'', ''invalid_request''), (''error_description'', d)]))
       \<and> ((\<forall>d'. err \<noteq> MissingRequiredAttribute d' \<and> err \<noteq> MissingRequiredValue d'
                 \<and> err \<noteq> ValueError d')
            \<longrightarrow> fst (parse_request lib self ctx request auth kw) = Inl err)"
proof -
  from assms(2) have a: "authenticate_client lib self ctx req0 auth kw = (Inr (req, client_id), self)"
    by (rule authenticate_client_result)
  have p: "parse_request lib self ctx request auth kw
             = verify_and_post_parse self ctx request req client_id kw"
    using assms(1) a by (simp add: parse_request_def)
  show ?thesis
  proof (intro conjI impI)
    assume "err = MissingRequiredAttribute d \<or> err = MissingRequiredValue d \<or> err = ValueError d"
    then have "caught_by_verification_handler err = Some d" by auto
    with assms(3) p
    show "fst (parse_request lib self ctx request auth kw)
            = Inr (new (error_cls self) [(''error'', ''invalid_request''), (''error_description'', d)])"
      by (simp add: verify_and_post_parse_def)
  next
    assume "\<forall>d'. err \<noteq> MissingRequiredAttribute d' \<and> err \<noteq> MissingRequiredValue d'
              \<and> err \<noteq> ValueError d'"
    then have "caught_by_verification_handler err = None" by (rule not_caught)
    with assms(3) p
    show "fst (parse_request lib self ctx request auth kw) = Inl err"
      by (simp add: verify_and_post_parse_def)
  qed
qed

text \<open>
  On the endpoint whose request class requires \<^verbatim>\<open>resource\<close>: a request without it
  gives the error response, and a request whose audience is not the resolved client gives
  the exception of the other class.
\<close>

theorem C4_verification_failure_witness:
  "decode_request reference_library resource_endpoint plain_context
       (DictRequest [(''scope'', ''openid'')]) no_kwargs = Inr [(''scope'', ''openid'')]
   \<and> fst (authenticate_client reference_library resource_endpoint plain_context
            [(''scope'', ''openid'')] None no_kwargs) = Inr ([(''scope'', ''openid'')], [])
   \<and> verify (request_cls resource_endpoint) [(''scope'', ''openid'')] (keyjar resource_endpoint) []
       = Inl (MissingRequiredAttribute ''resource'')
   \<and> fst (parse_request reference_library resource_endpoint plain_context
            (DictRequest [(''scope'', ''openid'')]) None no_kwargs)
       = Inr [(''error'', ''invalid_request''), (''error_description'', ''resource'')]
   \<and> verify (request_cls resource_endpoint) [(''resource'', ''acct:a''), (''aud'', ''other'')]
         (keyjar resource_endpoint) [] = Inl (OtherException ''NotForMe'')
   \<and> fst (parse_request reference_library resource_endpoint plain_context
            (DictRequest [(''resource'', ''acct:a''), (''aud'', ''other'')]) None no_kwargs)
       = Inl (OtherException ''NotForMe'')"
proof -
  let ?r1 = "[(''scope'', ''openid'')]"
  let ?r2 = "[(''resource'', ''acct:a''), (''aud'', ''other'')]"
  have d1: "decode_request reference_library resource_endpoint plain_context (DictRequest ?r1)
              no_kwargs = Inr ?r1"
    by (simp add: decode_request_def reference_defs)
  have d2: "decode_request reference_library resource_endpoint plain_context (DictRequest ?r2)
              no_kwargs = Inr ?r2"
    by (simp add: decode_request_def reference_defs)
  have a1: "fst (authenticate_client reference_library resource_endpoint plain_context ?r1 None
                   no_kwargs) = Inr (?r1, [])"
    by (simp add: authenticate_client_def client_authentication_def reference_defs)
  have a2: "fst (authenticate_client reference_library resource_endpoint plain_context ?r2 None
                   no_kwargs) = Inr (?r2, [])"
    by (simp add: authenticate_client_def client_authentication_def reference_defs)
  have v1: "verify (request_cls resource_endpoint) ?r1 (keyjar resource_endpoint) []
              = Inl (MissingRequiredAttribute ''resource'')"
    by (simp add: reference_defs has_key_def)
  have v2: "verify (request_cls resource_endpoint) ?r2 (keyjar resource_endpoint) []
              = Inl (OtherException ''NotForMe'')"
    by (simp add: reference_defs has_key_def)
  have e: "new (error_cls resource_endpoint)
             [(''error'', ''invalid_request''), (''error_description'', ''resource'')]
           = [(''error'', ''invalid_request''), (''error_description'', ''resource'')]"
    by (simp add: reference_defs)
  from C4_verification_failure [OF d1 a1 v1, of "''resource''"] e
  have p1: "fst (parse_request reference_library resource_endpoint plain_context (DictRequest ?r1)
                   None no_kwargs)
              = Inr [(''error'', ''invalid_request''), (''error_description'', ''resource'')]"
    by simp
  from C4_verification_failure [OF d2 a2 v2, of "[]"]
  have p2: "fst (parse_request reference_library resource_endpoint plain_context (DictRequest ?r2)
                   None no_kwargs) = Inl (OtherException ''NotForMe'')"
    by simp
  from d1 a1 v1 p1 v2 p2 show ?thesis by blast
qed

section \<open>Emitting a response\<close>

lemma response_info_result:
  assumes "fst (response_info self ctx response_args request kw) = r"
  shows "response_info self ctx response_args request kw = (r, self)"
  using assms response_info_self [of self ctx response_args request kw]
  by (cases "response_info self ctx response_args request kw") simp

text \<open>
  Claim C6: on an endpoint whose response placement is neither \<^verbatim>\<open>body\<close> nor
  \<^verbatim>\<open>url\<close>, \<^verbatim>\<open>do_response\<close> on a response without an \<^verbatim>\<open>error\<close> field raises
  \<^verbatim>\<open>ValueError\<close>: it returns no mapping and no error response.
\<close>

theorem C6_unknown_placement_raises:
  assumes "fst (response_info self ctx (or_empty response_args) request kw) = Inr response"
    and "\<not> has_key ''error'' response"
    and "response_placement self \<noteq> ''body''"
    and "response_placement self \<noteq> ''url''"
  shows "fst (do_response lib self ctx response_args request kw)
           = Inl (ValueError (''Don't know where that is: '' @ [CHR 0x27] @ response_placement self))"
proof -
  from assms(1) have "response_info self ctx (or_empty response_args) request kw = (Inr response, self)"
    by (rule response_info_result)
  with assms(2-4) show ?thesis
    by (simp add: do_response_def place_response_def)
qed

theorem C6_unknown_placement_raises_witness:
  "fst (response_info (plain_endpoint\<lparr>response_placement := ''header''\<rparr>) plain_context
          (or_empty (Some [(''code'', ''abc'')])) None no_kwargs) = Inr [(''code'', ''abc'')]
   \<and> \<not> has_key ''error'' [(''code'', ''abc'')]
   \<and> response_placement (plain_endpoint\<lparr>response_placement := ''header''\<rparr>) \<noteq> ''body''
   \<and> response_placement (plain_endpoint\<lparr>response_placement := ''header''\<rparr>) \<noteq> ''url''
   \<and> fst (do_response reference_library (plain_endpoint\<lparr>response_placement := ''header''\<rparr>)
            plain_context (Some [(''code'', ''abc'')]) None no_kwargs)
       = Inl (ValueError (''Don't know where that is: '' @ [CHR 0x27] @ ''header''))"
proof -
  let ?E = "plain_endpoint\<lparr>response_placement := ''header''\<rparr>"
  have r: "fst (response_info ?E plain_context (or_empty (Some [(''code'', ''abc'')])) None no_kwargs)
             = Inr [(''code'', ''abc'')]"
    by (simp add: response_info_def construct_def do_pre_construct_def do_post_construct_def
        plain_endpoint_def Message_def)
  have k: "\<not> has_key ''error'' [(''code'', ''abc'')]" by (simp add: has_key_def)
  have b: "response_placement ?E \<noteq> ''body''" by simp
  have u: "response_placement ?E \<noteq> ''url''" by simp
  from C6_unknown_placement_raises [OF r k b u, of reference_library] r k b u
  show ?thesis by simp
qed

text \<open>
  Claim C7: on an endpoint with response placement \<^verbatim>\<open>body\<close> and response format
  \<^verbatim>\<open>json\<close>, \<^verbatim>\<open>do_response\<close> on a response without an \<^verbatim>\<open>error\<close> field returns
  the mapping of \<^verbatim>\<open>response\<close> to the JSON serialisation of the instance and of
  \<^verbatim>\<open>http_headers\<close> to a list that holds \<^verbatim>\<open>('Content-type', 'application/json')\<close>
  (set on the caller's list when one is given, alone otherwise) and ends with the fixed
  no-cache headers.
\<close>

theorem C7_json_body_response:
  assumes "fst (response_info self ctx (or_empty response_args) request kw) = Inr response"
    and "\<not> has_key ''error'' response"
    and "response_placement self = ''body''"
    and "response_format self = ''json''"
    and "hdrs = (case http_headers kw of
                   Some given \<Rightarrow> set_content_type given ''application/json''
                 | None \<Rightarrow> [(''Content-type'', ''application/json'')])"
  shows "fst (do_response lib self ctx response_args request kw)
           = Inr (Dict [(''response'', Str (to_json lib response)),
                        (''http_headers'', HeaderList (hdrs @ OAUTH2_NOCACHE_HEADERS lib))])
         \<and> (''Content-type'', ''application/json'') \<in> set hdrs"
proof -
  from assms(1) have "response_info self ctx (or_empty response_args) request kw = (Inr response, self)"
    by (rule response_info_result)
  with assms(2-5)
  have "fst (do_response lib self ctx response_args request kw)
          = Inr (Dict [(''response'', Str (to_json lib response)),
                       (''http_headers'', HeaderList (hdrs @ OAUTH2_NOCACHE_HEADERS lib))])"
    by (simp add: do_response_def place_response_def split: option.splits)
  moreover from assms(5) have "(''Content-type'', ''application/json'') \<in> set hdrs"
    by (simp add: set_content_type_present split: option.splits)
  ultimately show ?thesis by simp
qed

text \<open>
  The response arguments \<^verbatim>\<open>{subject: "acct:foo@example.com"}\<close>, with no header list
  given and with a caller's list that holds another content type.
\<close>

theorem C7_json_body_response_witness:
  "fst (response_info plain_endpoint plain_context
          (or_empty (Some [(''subject'', ''acct:foo@example.com'')])) None no_kwargs)
     = Inr [(''subject'', ''acct:foo@example.com'')]
   \<and> \<not> has_key ''error'' [(''subject'', ''acct:foo@example.com'')]
   \<and> response_placement plain_endpoint = ''body''
   \<and> response_format plain_endpoint = ''json''
   \<and> fst (do_response reference_library plain_endpoint plain_context
            (Some [(''subject'', ''acct:foo@example.com'')]) None no_kwargs)
       = Inr (Dict [(''response'', Str (json_dumps [(''subject'', ''acct:foo@example.com'')])),
                    (''http_headers'',
                     HeaderList [(''Content-type'', ''application/json''),
                                 (''Pragma'', ''no-cache''), (''Cache-Control'', ''no-store'')])])"
proof -
  let ?args = "[(''subject'', ''acct:foo@example.com'')]"
  have r: "fst (response_info plain_endpoint plain_context (or_empty (Some ?args)) None no_kwargs)
             = Inr ?args"
    by (simp add: response_info_def construct_def do_pre_construct_def do_post_construct_def
        plain_endpoint_def Message_def)
  have k: "\<not> has_key ''error'' ?args" by (simp add: has_key_def)
  have b: "response_placement plain_endpoint = ''body''" by (simp add: plain_endpoint_def)
  have j: "response_format plain_endpoint = ''json''" by (simp add: plain_endpoint_def)
  have h: "[(''Content-type'', ''application/json'')]
             = (case http_headers no_kwargs of
                  Some given \<Rightarrow> set_content_type given ''application/json''
                | None \<Rightarrow> [(''Content-type'', ''application/json'')])"
    by (simp add: no_kwargs_def)
  from C7_json_body_response [OF r k b j h, of reference_library]
  have "fst (do_response reference_library plain_endpoint plain_context (Some ?args) None no_kwargs)
          = Inr (Dict [(''response'', Str (json_dumps ?args)),
                       (''http_headers'',
                        HeaderList [(''Content-type'', ''application/json''),
                                    (''Pragma'', ''no-cache''), (''Cache-Control'', ''no-store'')])])"
    by (simp add: reference_library_def nocache_headers_def)
  with r k b j show ?thesis by blast
qed

text \<open>
  Claim C10: on an endpoint with response placement \<^verbatim>\<open>url\<close>, \<^verbatim>\<open>do_response\<close> on a
  response without an \<^verbatim>\<open>error\<close> field raises \<^verbatim>\<open>KeyError\<close> when the call has no
  \<^verbatim>\<open>return_uri\<close>, and otherwise returns the redirect (fragment encoded when
  \<^verbatim>\<open>fragment_enc\<close> is given and true) with a header list that is exactly the fixed
  no-cache headers: a header list the caller gives is not used.
\<close>

theorem C10_url_placement_headers:
  assumes "fst (response_info self ctx (or_empty response_args) request kw) = Inr response"
    and "\<not> has_key ''error'' response"
    and "response_placement self = ''url''"
  shows "fst (do_response lib self ctx response_args request kw)
           = (case return_uri kw of
                None \<Rightarrow> Inl (KeyError ''return_uri'')
              | Some uri \<Rightarrow>
                  Inr (Dict [(''response'',
                              Str (msg_request lib response uri
                                     (case fragment_enc kw of Some b \<Rightarrow> b | None \<Rightarrow> False))),
                             (''http_headers'', HeaderList (OAUTH2_NOCACHE_HEADERS lib))]))"
proof -
  from assms(1) have "response_info self ctx (or_empty response_args) request kw = (Inr response, self)"
    by (rule response_info_result)
  with assms(2,3) show ?thesis
    by (simp add: do_response_def place_response_def Let_def split: option.splits)
qed

text \<open>
  A redirect to \<^verbatim>\<open>https://rp.example/cb\<close> with a caller's header list
  \<^verbatim>\<open>[('X-Frame-Options', 'deny')]\<close>: the headers returned are the no-cache pair.
\<close>

theorem C10_url_placement_headers_witness:
  "fst (response_info (plain_endpoint\<lparr>response_placement := ''url''\<rparr>) plain_context
          (or_empty (Some [(''code'', ''abc'')])) None redirect_kwargs) = Inr [(''code'', ''abc'')]
   \<and> \<not> has_key ''error'' [(''code'', ''abc'')]
   \<and> response_placement (plain_endpoint\<lparr>response_placement := ''url''\<rparr>) = ''url''
   \<and> fst (do_response reference_library (plain_endpoint\<lparr>response_placement := ''url''\<rparr>)
            plain_context (Some [(''code'', ''abc'')]) None redirect_kwargs)
       = Inr (Dict [(''response'', Str ''https://rp.example/cb?code=abc''),
                    (''http_headers'',
                     HeaderList [(''Pragma'', ''no-cache''), (''Cache-Control'', ''no-store'')])])"
proof -
  let ?E = "plain_endpoint\<lparr>response_placement := ''url''\<rparr>"
  have r: "fst (response_info ?E plain_context (or_empty (Some [(''code'', ''abc'')])) None
                  redirect_kwargs) = Inr [(''code'', ''abc'')]"
    by (simp add: response_info_def construct_def do_pre_construct_def do_post_construct_def
        plain_endpoint_def Message_def)
  have k: "\<not> has_key ''error'' [(''code'', ''abc'')]" by (simp add: has_key_def)
  have u: "response_placement ?E = ''url''" by simp
  from C10_url_placement_headers [OF r k u, of reference_library]
  have "fst (do_response reference_library ?E plain_context (Some [(''code'', ''abc'')]) None
               redirect_kwargs)
          = Inr (Dict [(''response'', Str ''https://rp.example/cb?code=abc''),
                       (''http_headers'',
                        HeaderList [(''Pragma'', ''no-cache''), (''Cache-Control'', ''no-store'')])])"
    by (simp add: redirect_kwargs_def reference_library_def nocache_headers_def request_url_def)
  with r k u show ?thesis by blast
qed

end
